theory Spec2Isabelle
  imports Complex_Main
begin

section \<open>Numeric conventions\<close>

text \<open>
  Python floats are idealised: a finite float is a \<^typ>\<open>real\<close> (rounding error is not
  modelled), and the three non-finite IEEE values are separate constructors where a
  function inspects them.  \<open>int(x)\<close> on a finite float truncates towards zero.
\<close>

datatype pyfloat = Fin real | PInf | NInf | NaN

definition py_trunc :: "real \<Rightarrow> int" where
  "py_trunc x = (if 0 \<le> x then \<lfloor>x\<rfloor> else \<lceil>x\<rceil>)"

section \<open>Telemetry processor (src/telemetry\_processor.py)\<close>

definition KEY_PARAMETERS :: "string list" where
  "KEY_PARAMETERS =
     [''speed'', ''aps'', ''ath'', ''pbrake_f'', ''pbrake_r'', ''gear'', ''nmot'',
      ''Steering_Angle'', ''accx_can'', ''accy_can'', ''VBOX_Long_Minutes'',
      ''VBOX_Lat_Min'', ''Laptrigger_lapdist_dls'']"

text \<open>\<open>normalize_lap_number\<close>: the marker for an invalid lap is \<open>-1\<close>.\<close>

definition normalize_lap_number :: "int \<Rightarrow> int" where
  "normalize_lap_number lap =
     (if lap = 32768 \<or> lap < 0 \<or> lap > 100 then - 1 else lap)"

text \<open>
  The argument of \<open>clean_telemetry_value\<close> is any Python object; \<open>float(value)\<close> either
  yields a float or raises, and the bare \<open>except\<close> turns the raise into the default.
\<close>

datatype raw_value = Numeric pyfloat | NonNumeric

definition defaults :: "(string \<times> real) list" where
  "defaults =
     [(''Speed'', 0), (''speed'', 0), (''aps'', 0), (''ath'', 0), (''pbrake_f'', 0),
      (''pbrake_r'', 0), (''Gear'', 4), (''gear'', 4), (''nmotor'', 5000), (''nmot'', 5000),
      (''Steering_Angle'', 0), (''accx_can'', 0), (''accy_can'', 0),
      (''VBOX_Long_Minutes'', 0), (''VBOX_Lat_Min'', 0), (''Laptrigger_lapdist_dls'', 0)]"

definition get_default_value :: "string \<Rightarrow> real" where
  "get_default_value param_name =
     (case map_of defaults param_name of Some d \<Rightarrow> d | None \<Rightarrow> 0)"

definition clean_telemetry_value :: "raw_value \<Rightarrow> string \<Rightarrow> pyfloat" where
  "clean_telemetry_value v param_name =
     (case v of
        NonNumeric \<Rightarrow> Fin (get_default_value param_name)
      | Numeric NaN \<Rightarrow> Fin (get_default_value param_name)
      | Numeric PInf \<Rightarrow> Fin (get_default_value param_name)
      | Numeric NInf \<Rightarrow> Fin (get_default_value param_name)
      | Numeric (Fin val) \<Rightarrow>
          if param_name \<in> set [''aps'', ''ath''] then Fin (max 0 (min 100 val))
          else if param_name \<in> set [''pbrake_f'', ''pbrake_r''] then Fin (max 0 (min 100 val))
          else if param_name \<in> set [''Speed'', ''speed''] then Fin (max 0 (min 250 val))
          else if param_name \<in> set [''Gear'', ''gear'']
            then Fin (of_int (max 0 (min 6 (py_trunc val))))
          else if param_name \<in> set [''nmotor'', ''nmot''] then Fin (max 0 (min 8500 val))
          else if param_name = ''Steering_Angle'' then Fin (max (- 540) (min 540 val))
          else if param_name \<in> set [''accx_can'', ''accy_can''] then Fin (max (- 3) (min 3 val))
          else Fin val)"

section \<open>Arithmetic on floats with the IEEE special values\<close>

text \<open>
  The operations follow IEEE 754 on the special values (\<open>inf - inf\<close> and \<open>inf * 0\<close>
  are NaN, every comparison with NaN is false).  The sign of zero is not modelled.
  Division by zero is the one of NumPy scalars, which yields an infinity or NaN
  instead of raising.
\<close>

fun fneg :: "pyfloat \<Rightarrow> pyfloat" where
  "fneg (Fin a) = Fin (- a)"
| "fneg PInf = NInf"
| "fneg NInf = PInf"
| "fneg NaN = NaN"

fun fadd :: "pyfloat \<Rightarrow> pyfloat \<Rightarrow> pyfloat" where
  "fadd (Fin a) (Fin b) = Fin (a + b)"
| "fadd NaN _ = NaN"
| "fadd _ NaN = NaN"
| "fadd PInf NInf = NaN"
| "fadd NInf PInf = NaN"
| "fadd PInf _ = PInf"
| "fadd _ PInf = PInf"
| "fadd NInf _ = NInf"
| "fadd _ NInf = NInf"

definition fsub :: "pyfloat \<Rightarrow> pyfloat \<Rightarrow> pyfloat" where
  "fsub a b = fadd a (fneg b)"

definition inf_signed :: "bool \<Rightarrow> pyfloat" where
  "inf_signed positive = (if positive then PInf else NInf)"

fun fmul :: "pyfloat \<Rightarrow> pyfloat \<Rightarrow> pyfloat" where
  "fmul (Fin a) (Fin b) = Fin (a * b)"
| "fmul NaN _ = NaN"
| "fmul _ NaN = NaN"
| "fmul (Fin a) PInf = (if a = 0 then NaN else inf_signed (0 < a))"
| "fmul (Fin a) NInf = (if a = 0 then NaN else inf_signed (a < 0))"
| "fmul PInf (Fin b) = (if b = 0 then NaN else inf_signed (0 < b))"
| "fmul NInf (Fin b) = (if b = 0 then NaN else inf_signed (b < 0))"
| "fmul PInf PInf = PInf"
| "fmul NInf NInf = PInf"
| "fmul PInf NInf = NInf"
| "fmul NInf PInf = NInf"

fun fdiv :: "pyfloat \<Rightarrow> pyfloat \<Rightarrow> pyfloat" where
  "fdiv (Fin a) (Fin b) =
     (if b = 0 then (if a = 0 then NaN else inf_signed (0 < a)) else Fin (a / b))"
| "fdiv NaN _ = NaN"
| "fdiv _ NaN = NaN"
| "fdiv (Fin a) PInf = Fin 0"
| "fdiv (Fin a) NInf = Fin 0"
| "fdiv PInf (Fin b) = inf_signed (0 \<le> b)"
| "fdiv NInf (Fin b) = inf_signed (b < 0)"
| "fdiv PInf PInf = NaN"
| "fdiv NInf NInf = NaN"
| "fdiv PInf NInf = NaN"
| "fdiv NInf PInf = NaN"

fun flt :: "pyfloat \<Rightarrow> pyfloat \<Rightarrow> bool" where
  "flt (Fin a) (Fin b) = (a < b)"
| "flt NaN _ = False"
| "flt _ NaN = False"
| "flt NInf NInf = False"
| "flt PInf PInf = False"
| "flt NInf _ = True"
| "flt _ PInf = True"
| "flt PInf _ = False"
| "flt _ NInf = False"

definition isna :: "pyfloat \<Rightarrow> bool" where
  "isna a = (a = NaN)"

text \<open>\<open>sum(...)\<close> of Python starts from the integer 0 and adds from the left.\<close>

definition fsum :: "pyfloat list \<Rightarrow> pyfloat" where
  "fsum xs = foldl fadd (Fin 0) xs"

text \<open>\<open>max(a, b)\<close> of Python keeps its first argument unless the second is greater.\<close>

definition py_max :: "pyfloat \<Rightarrow> pyfloat \<Rightarrow> pyfloat" where
  "py_max a b = (if flt a b then b else a)"

text \<open>
  \<open>round(x, n)\<close>: to the nearest multiple of \<open>10^-n\<close>, a tie to the even neighbour; an
  infinity or NaN is returned unchanged.
\<close>

definition round_half_even :: "real \<Rightarrow> int" where
  "round_half_even x =
     (let f = \<lfloor>x\<rfloor>; d = x - of_int f
      in if d < 1 / 2 then f else if 1 / 2 < d then f + 1 else if even f then f else f + 1)"

definition py_round :: "real \<Rightarrow> nat \<Rightarrow> real" where
  "py_round x n = of_int (round_half_even (x * 10 ^ n)) / 10 ^ n"

fun fround :: "pyfloat \<Rightarrow> nat \<Rightarrow> pyfloat" where
  "fround (Fin x) n = Fin (py_round x n)"
| "fround a n = a"

section \<open>Strings: \<open>split\<close>, \<open>int\<close> and \<open>float\<close> of Python\<close>

text \<open>\<open>s.split(c)\<close>: the fields between the occurrences of \<open>c\<close>, never an empty list.\<close>

fun split_on :: "char \<Rightarrow> string \<Rightarrow> string list" where
  "split_on c [] = [[]]"
| "split_on c (x # xs) =
     (if x = c then [] # split_on c xs
      else (case split_on c xs of [] \<Rightarrow> [[x]] | p # ps \<Rightarrow> (x # p) # ps))"

definition is_space :: "char \<Rightarrow> bool" where
  "is_space c =
     (c \<in> set [CHR '' '', CHR 0x09, CHR 0x0A, CHR 0x0B, CHR 0x0C, CHR 0x0D,
                CHR 0x1C, CHR 0x1D, CHR 0x1E, CHR 0x1F])"

definition strip :: "string \<Rightarrow> string" where
  "strip s = rev (dropWhile is_space (rev (dropWhile is_space s)))"

definition digit_val :: "char \<Rightarrow> nat option" where
  "digit_val c =
     map_of [(CHR ''0'', 0), (CHR ''1'', 1), (CHR ''2'', 2), (CHR ''3'', 3), (CHR ''4'', 4),
             (CHR ''5'', 5), (CHR ''6'', 6), (CHR ''7'', 7), (CHR ''8'', 8), (CHR ''9'', 9)] c"

text \<open>
  A digit part is \<open>digit (["_"] digit)*\<close>: single underscores are allowed between
  digits only.  \<open>digits_acc\<close> reads what follows the first digit.
\<close>

fun digits_acc :: "nat \<Rightarrow> string \<Rightarrow> nat option" where
  "digits_acc acc [] = Some acc"
| "digits_acc acc [c] =
     (case digit_val c of None \<Rightarrow> None | Some v \<Rightarrow> Some (10 * acc + v))"
| "digits_acc acc (c # d # ds) =
     (if c = CHR ''_''
      then (case digit_val d of None \<Rightarrow> None | Some v \<Rightarrow> digits_acc (10 * acc + v) ds)
      else (case digit_val c of None \<Rightarrow> None | Some v \<Rightarrow> digits_acc (10 * acc + v) (d # ds)))"

definition digitpart :: "string \<Rightarrow> nat option" where
  "digitpart s =
     (case s of [] \<Rightarrow> None
      | c # cs \<Rightarrow> (case digit_val c of None \<Rightarrow> None | Some v \<Rightarrow> digits_acc v cs))"

definition split_sign :: "string \<Rightarrow> bool \<times> string" where
  "split_sign s =
     (case s of [] \<Rightarrow> (False, [])
      | c # cs \<Rightarrow> if c = CHR ''-'' then (True, cs) else if c = CHR ''+'' then (False, cs)
                  else (False, s))"

text \<open>
  \<open>int(s)\<close> for a string: surrounding whitespace, an optional sign, a decimal digit
  part.  \<open>None\<close> stands for the \<open>ValueError\<close>.  Characters are bytes here, so the
  non-ASCII digits and spaces that Python also accepts are not covered.
\<close>

definition py_int :: "string \<Rightarrow> int option" where
  "py_int s =
     (let (neg, body) = split_sign (strip s)
      in case digitpart body of None \<Rightarrow> None
         | Some n \<Rightarrow> Some (if neg then - int n else int n))"

definition ascii_lower :: "char \<Rightarrow> char" where
  "ascii_lower c =
     (case map_of [(CHR ''I'', CHR ''i''), (CHR ''N'', CHR ''n''), (CHR ''F'', CHR ''f''),
                   (CHR ''T'', CHR ''t''), (CHR ''Y'', CHR ''y''), (CHR ''A'', CHR ''a'')] c of
        Some l \<Rightarrow> l | None \<Rightarrow> c)"

text \<open>The mantissa \<open>digitpart ["." [digitpart]] | "." digitpart\<close> as a real.\<close>

definition mantissa :: "string \<Rightarrow> real option" where
  "mantissa s =
     (let ip = takeWhile (\<lambda>c. c \<noteq> CHR ''.'') s; rest = dropWhile (\<lambda>c. c \<noteq> CHR ''.'') s
      in case rest of
           [] \<Rightarrow> map_option real (digitpart ip)
         | _ # fp \<Rightarrow>
             if ip = [] \<and> fp = [] then None
             else (case (if ip = [] then Some 0 else digitpart ip) of None \<Rightarrow> None
                   | Some i \<Rightarrow>
                       (case (if fp = [] then Some 0 else digitpart fp) of None \<Rightarrow> None
                        | Some f \<Rightarrow>
                            Some (real i + real f / 10 ^ length (filter (\<lambda>c. c \<noteq> CHR ''_'') fp)))))"

definition exponent :: "string \<Rightarrow> int option" where
  "exponent s =
     (case s of [] \<Rightarrow> Some 0
      | _ # es \<Rightarrow> (let (neg, ds) = split_sign es
                   in case digitpart ds of None \<Rightarrow> None
                      | Some n \<Rightarrow> Some (if neg then - int n else int n)))"

definition scale10 :: "real \<Rightarrow> int \<Rightarrow> real" where
  "scale10 m e = (if 0 \<le> e then m * 10 ^ nat e else m / 10 ^ nat (- e))"

text \<open>
  \<open>float(s)\<close> for a string: surrounding whitespace, an optional sign, then \<open>inf\<close>,
  \<open>infinity\<close> or \<open>nan\<close> in any letter case, or a decimal literal with an optional
  exponent.  \<open>None\<close> stands for the \<open>ValueError\<close>.  The value of a literal is exact:
  neither rounding nor overflow to infinity is modelled; as for \<open>int\<close>, only ASCII
  digits and spaces are covered.
\<close>

definition py_float :: "string \<Rightarrow> pyfloat option" where
  "py_float s =
     (let (neg, body) = split_sign (strip s); low = map ascii_lower body
      in if low = ''inf'' \<or> low = ''infinity'' then Some (inf_signed (\<not> neg))
         else if low = ''nan'' then Some NaN
         else let is_e = (\<lambda>c. c = CHR ''e'' \<or> c = CHR ''E'');
                  ms = takeWhile (\<lambda>c. \<not> is_e c) body; es = dropWhile (\<lambda>c. \<not> is_e c) body
              in case mantissa ms of None \<Rightarrow> None
                 | Some m \<Rightarrow>
                     (case exponent es of None \<Rightarrow> None
                      | Some e \<Rightarrow> Some (Fin (scale10 (if neg then - m else m) e))))"

section \<open>Lap-time parsing\<close>

text \<open>
  \<open>RaceDataLoader._time_to_seconds\<close> (src/data\_loader.py) on a string.  The result
  \<open>None\<close> is the \<open>None\<close> the function returns, either directly or from its bare
  \<open>except\<close>.
\<close>

definition time_to_seconds :: "string \<Rightarrow> pyfloat option" where
  "time_to_seconds time_str =
     (let parts = split_on CHR '':'' time_str
      in if length parts = 2
         then (case py_int (parts ! 0) of None \<Rightarrow> None
               | Some minutes \<Rightarrow>
                   (case py_float (parts ! 1) of None \<Rightarrow> None
                    | Some seconds \<Rightarrow> Some (fadd (Fin (of_int (minutes * 60))) seconds)))
         else py_float time_str)"

text \<open>
  The local \<open>parse_time\<close> of \<open>analyze_race_pace\<close> and of
  \<open>calculate_optimal_pit_strategy\<close> (src/analysis/race\_strategy.py): it tests for a
  colon and reads the first two fields, whatever the number of fields.
\<close>

definition parse_time :: "string \<Rightarrow> pyfloat option" where
  "parse_time t =
     (if CHR '':'' \<in> set t
      then (let parts = split_on CHR '':'' t
            in case py_float (parts ! 0) of None \<Rightarrow> None
               | Some m \<Rightarrow>
                   (case py_float (parts ! 1) of None \<Rightarrow> None
                    | Some s \<Rightarrow> Some (fadd (fmul m (Fin 60)) s)))
      else py_float t)"

section \<open>The lap table and the column operations of pandas\<close>

text \<open>
  One row of the analysis table per vehicle and lap.  A missing cell of a numeric
  column is NaN.  \<open>lap_time_seconds\<close> is the column the loader adds to the table by
  applying \<open>_time_to_seconds\<close> to \<open>LAP_TIME\<close>.
\<close>

record lap_row =
  NUMBER :: int
  LAP_NUMBER :: int
  LAP_TIME :: string
  lap_time_seconds :: pyfloat
  S1_SECONDS :: pyfloat
  S2_SECONDS :: pyfloat
  S3_SECONDS :: pyfloat
  KPH :: pyfloat

definition none_to_nan :: "pyfloat option \<Rightarrow> pyfloat" where
  "none_to_nan r = (case r of None \<Rightarrow> NaN | Some a \<Rightarrow> a)"

definition load_lap_time_seconds :: "lap_row list \<Rightarrow> lap_row list" where
  "load_lap_time_seconds df =
     map (\<lambda>r. r\<lparr>lap_time_seconds := none_to_nan (time_to_seconds (LAP_TIME r))\<rparr>) df"

definition dropna :: "pyfloat list \<Rightarrow> pyfloat list" where
  "dropna xs = filter (\<lambda>a. \<not> isna a) xs"

text \<open>\<open>Series.min()\<close> and \<open>Series.mean()\<close> skip NaN and are NaN on no value.\<close>

definition col_min :: "pyfloat list \<Rightarrow> pyfloat" where
  "col_min xs =
     (case dropna xs of [] \<Rightarrow> NaN
      | y # ys \<Rightarrow> foldl (\<lambda>m x. if flt x m then x else m) y ys)"

definition col_mean :: "pyfloat list \<Rightarrow> pyfloat" where
  "col_mean xs =
     (let ys = dropna xs
      in if ys = [] then NaN else fdiv (fsum ys) (Fin (real (length ys))))"

definition tail :: "nat \<Rightarrow> 'a list \<Rightarrow> 'a list" where
  "tail n xs = drop (length xs - n) xs"

section \<open>Tire degradation (src/analysis/tire\_degradation.py)\<close>

text \<open>
  \<open>analyze_lap_degradation\<close>: the vehicle's rows sorted by lap number (the sort is
  taken as stable), each with the columns the function derives.  The rolling mean
  \<open>lap_time_rolling\<close>, which no function modelled here reads, is left out.
\<close>

record deg_row =
  base :: lap_row
  delta_to_best :: pyfloat
  lap_to_lap_delta :: pyfloat
  estimated_tire_life :: real

definition diff :: "pyfloat list \<Rightarrow> pyfloat list" where
  "diff xs = (case xs of [] \<Rightarrow> [] | _ # ys \<Rightarrow> NaN # map2 (\<lambda>cur prev. fsub cur prev) ys xs)"

definition clip :: "real \<Rightarrow> real \<Rightarrow> real \<Rightarrow> real" where
  "clip lo hi x = (if x < lo then lo else if hi < x then hi else x)"

definition analyze_lap_degradation :: "lap_row list \<Rightarrow> int \<Rightarrow> deg_row list" where
  "analyze_lap_degradation analysis_df vehicle_number =
     (let vehicle_laps = sort_key LAP_NUMBER (filter (\<lambda>r. NUMBER r = vehicle_number) analysis_df);
          best_lap_time = col_min (map lap_time_seconds vehicle_laps)
      in map2 (\<lambda>r d.
            \<lparr>base = r,
             delta_to_best = fsub (lap_time_seconds r) best_lap_time,
             lap_to_lap_delta = d,
             estimated_tire_life = clip 0 100 (100 - (real_of_int (LAP_NUMBER r) / 15 * 100))\<rparr>)
          vehicle_laps (diff (map lap_time_seconds vehicle_laps)))"

text \<open>
  \<open>LinearRegression().fit(X, y)\<close> of scikit-learn with one feature: the ordinary
  least-squares line through the points, as (slope, intercept); the slope is 0 when
  all abscissae are equal (the minimum-norm solution).  A target that is not finite
  is rejected with a \<open>ValueError\<close>.
\<close>

datatype error = ValueError | OverflowError

definition avg :: "real list \<Rightarrow> real" where
  "avg xs = sum_list xs / real (length xs)"

definition least_squares :: "real list \<Rightarrow> real list \<Rightarrow> real \<times> real" where
  "least_squares xs ys =
     (let xm = avg xs; ym = avg ys;
          sxx = sum_list (map (\<lambda>x. (x - xm) * (x - xm)) xs);
          sxy = sum_list (map2 (\<lambda>x y. (x - xm) * (y - ym)) xs ys);
          coef = (if sxx = 0 then 0 else sxy / sxx)
      in (coef, ym - coef * xm))"

fun fin_val :: "pyfloat \<Rightarrow> real option" where
  "fin_val (Fin a) = Some a"
| "fin_val _ = None"

fun is_fin :: "pyfloat \<Rightarrow> bool" where
  "is_fin (Fin a) = True"
| "is_fin _ = False"

definition fin_or_zero :: "pyfloat \<Rightarrow> real" where
  "fin_or_zero y = (case y of Fin t \<Rightarrow> t | _ \<Rightarrow> 0)"

definition LinearRegression_fit :: "int list \<Rightarrow> pyfloat list \<Rightarrow> error + real \<times> real" where
  "LinearRegression_fit X y =
     (case those (map fin_val y) of
        None \<Rightarrow> Inl ValueError
      | Some ys \<Rightarrow> Inr (least_squares (map real_of_int X) ys))"

text \<open>Decimal notation of an integer, for the f-string of the message.\<close>

fun show_nat :: "nat \<Rightarrow> string" where
  "show_nat n =
     (if n < 10 then [''0123456789'' ! n]
      else show_nat (n div 10) @ [''0123456789'' ! (n mod 10)])"

definition show_int :: "int \<Rightarrow> string" where
  "show_int i = (if i < 0 then CHR ''-'' # show_nat (nat (- i)) else show_nat (nat i))"

record pit_decision =
  pit_lap :: "int option"
  laps_remaining :: "int option"
  degradation_rate :: "real option"
  current_delta :: "real option"
  confidence :: int
  message :: string

text \<open>The rows the regression is fitted on (\<open>recent_laps\<close>) and the fit itself.\<close>

definition recent_window :: "deg_row list \<Rightarrow> int \<Rightarrow> deg_row list" where
  "recent_window vehicle_laps current_lap =
     (let recent_laps = filter (\<lambda>r. LAP_NUMBER (base r) \<ge> current_lap - 5) vehicle_laps
      in if length recent_laps < 3 then tail 5 vehicle_laps else recent_laps)"

definition fit_recent :: "deg_row list \<Rightarrow> error + real \<times> real" where
  "fit_recent recent_laps =
     LinearRegression_fit (map (\<lambda>r. LAP_NUMBER (base r)) recent_laps) (map delta_to_best recent_laps)"

text \<open>
  \<open>predict_pit_window\<close>.  A key that a returned dictionary does not have is \<open>None\<close> in
  the record.
\<close>

definition predict_pit_window :: "lap_row list \<Rightarrow> int \<Rightarrow> int \<Rightarrow> int \<Rightarrow> error + pit_decision" where
  "predict_pit_window analysis_df vehicle_number current_lap total_laps =
     (let vehicle_laps = analyze_lap_degradation analysis_df vehicle_number
      in if length vehicle_laps < 5
         then Inr \<lparr>pit_lap = None, laps_remaining = None, degradation_rate = None,
                   current_delta = None, confidence = 0, message = ''Insufficient data''\<rparr>
         else
           let recent_laps = recent_window vehicle_laps current_lap
           in case fit_recent recent_laps of
                Inl e \<Rightarrow> Inl e
              | Inr (coef, intercept) \<Rightarrow>
                  let rate = coef;
                      threshold = 1.5;
                      cur_delta = intercept + coef * real_of_int current_lap
                  in if rate > 0.01
                     then
                       let laps_until_threshold = (threshold - cur_delta) / rate;
                           pit = py_trunc (real_of_int current_lap + laps_until_threshold);
                           pit = max (current_lap + 1) (min pit (total_laps - 2));
                           conf = min 100 (int (length recent_laps) * 20)
                       in Inr \<lparr>pit_lap = Some pit,
                               laps_remaining = Some (py_trunc laps_until_threshold),
                               degradation_rate = Some (py_round rate 3),
                               current_delta = Some (py_round cur_delta 3),
                               confidence = conf,
                               message = ''Pit recommended in ''
                                 @ show_int (py_trunc laps_until_threshold) @ '' laps''\<rparr>
                     else Inr \<lparr>pit_lap = Some (total_laps - 1),
                               laps_remaining = Some (total_laps - current_lap),
                               degradation_rate = Some (py_round rate 3),
                               current_delta = None,
                               confidence = 50,
                               message = ''Tires stable, can extend stint''\<rparr>)"

section \<open>Race strategy (src/analysis/race\_strategy.py)\<close>



definition pit_stop_time :: real where
  "pit_stop_time = 45"

datatype 'a reply = ErrorDict string | Reply 'a






text \<open>
  \<open>calculate_optimal_pit_strategy\<close>.  \<open>lap_seconds\<close> is the column of that name after
  \<open>dropna\<close>; \<open>deg_rate_used\<close> is \<open>tire_deg_rate\<close> after the override from the data;
  \<open>time_lost\<close> is \<open>sum(rate * i for i in range(n))\<close> and \<open>time_lost_fresh\<close> the same sum
  with the factor 0.3; \<open>pit_loop\<close> is the loop over the candidate pit laps, its state
  the pair of \<open>best_pit_lap\<close> and \<open>min_total_time_lost\<close>.
\<close>

definition lap_seconds :: "lap_row list \<Rightarrow> pyfloat list" where
  "lap_seconds vehicle_laps =
     dropna (map (\<lambda>r. none_to_nan (parse_time (LAP_TIME r))) vehicle_laps)"

definition deg_rate_used :: "pyfloat list \<Rightarrow> pyfloat \<Rightarrow> pyfloat" where
  "deg_rate_used secs tire_deg_rate =
     (if 10 \<le> length secs
      then (let early_pace = col_mean (take 5 secs);
                late_pace = col_mean (tail 5 secs);
                actual_deg_rate = fdiv (fsub late_pace early_pace) (Fin (real (length secs)))
            in py_max actual_deg_rate (Fin 0.01))
      else tire_deg_rate)"

definition time_lost :: "pyfloat \<Rightarrow> int \<Rightarrow> pyfloat" where
  "time_lost rate n = fsum (map (\<lambda>i. fmul rate (Fin (real_of_int i))) [0..n - 1])"

definition time_lost_fresh :: "pyfloat \<Rightarrow> int \<Rightarrow> pyfloat" where
  "time_lost_fresh rate n =
     fsum (map (\<lambda>i. fmul (fmul rate (Fin (real_of_int i))) (Fin 0.3)) [0..n - 1])"

definition total_time_lost :: "pyfloat \<Rightarrow> int \<Rightarrow> int \<Rightarrow> int \<Rightarrow> pyfloat" where
  "total_time_lost rate current_lap total_laps pit =
     (let laps_before_pit = pit - current_lap;
          time_lost_before = time_lost rate laps_before_pit;
          pit_time = Fin pit_stop_time;
          laps_after_pit = total_laps - pit;
          time_lost_after = time_lost_fresh rate laps_after_pit
      in fadd (fadd time_lost_before pit_time) time_lost_after)"

fun pit_loop :: "pyfloat \<Rightarrow> int \<Rightarrow> int \<Rightarrow> int list \<Rightarrow> int \<times> pyfloat \<Rightarrow> int \<times> pyfloat" where
  "pit_loop rate current_lap total_laps [] state = state"
| "pit_loop rate current_lap total_laps (pit # rest) (best_pit_lap, min_total_time_lost) =
     (let total = total_time_lost rate current_lap total_laps pit
      in pit_loop rate current_lap total_laps rest
           (if flt total min_total_time_lost then (pit, total)
            else (best_pit_lap, min_total_time_lost)))"

record pit_strategy =
  should_pit :: bool
  optimal_pit_lap :: int
  laps_until_pit :: int
  time_saved_seconds :: pyfloat
  deg_rate :: pyfloat
  time_lost_no_pit :: pyfloat
  time_lost_with_pit :: pyfloat

definition calculate_optimal_pit_strategy ::
  "lap_row list \<Rightarrow> int \<Rightarrow> int \<Rightarrow> int \<Rightarrow> pyfloat \<Rightarrow> pit_strategy reply" where
  "calculate_optimal_pit_strategy analysis_df vehicle_number current_lap total_laps tire_deg_rate =
     (let vehicle_laps = filter (\<lambda>r. NUMBER r = vehicle_number) analysis_df
      in if length vehicle_laps < 5 then ErrorDict ''Insufficient data''
         else
           let rate = deg_rate_used (lap_seconds vehicle_laps) tire_deg_rate;
               laps_left = total_laps - current_lap;
               no_pit = time_lost rate laps_left;
               (best_pit_lap, min_total_time_lost) =
                  pit_loop rate current_lap total_laps [current_lap + 1..total_laps - 2 - 1]
                    (current_lap + 1, PInf);
               time_saved = fsub no_pit min_total_time_lost;
               should = flt (Fin 5.0) time_saved
           in Reply \<lparr>should_pit = should,
                     optimal_pit_lap = best_pit_lap,
                     laps_until_pit = best_pit_lap - current_lap,
                     time_saved_seconds = fround time_saved 2,
                     deg_rate = fround rate 4,
                     time_lost_no_pit = fround no_pit 2,
                     time_lost_with_pit = fround min_total_time_lost 2\<rparr>)"



section \<open>Racing line (src/analysis/racing\_line.py)\<close>

text \<open>\<open>calculate_potential_lap_time\<close>; the empty dictionary is \<open>None\<close>.\<close>

record potential_lap =
  theoretical_best :: pyfloat
  actual_best :: pyfloat
  improvement_potential :: pyfloat
  best_s1 :: pyfloat
  best_s2 :: pyfloat
  best_s3 :: pyfloat

definition calculate_potential_lap_time :: "lap_row list \<Rightarrow> int \<Rightarrow> potential_lap option" where
  "calculate_potential_lap_time analysis_df vehicle_number =
     (let vehicle_laps = filter (\<lambda>r. NUMBER r = vehicle_number) analysis_df
      in if length vehicle_laps = 0 then None
         else
           let s1 = col_min (map S1_SECONDS vehicle_laps);
               s2 = col_min (map S2_SECONDS vehicle_laps);
               s3 = col_min (map S3_SECONDS vehicle_laps);
               theoretical = fadd (fadd s1 s2) s3;
               actual = col_min (map lap_time_seconds vehicle_laps);
               improvement = fsub actual theoretical
           in Some \<lparr>theoretical_best = fround theoretical 3,
                    actual_best = fround actual 3,
                    improvement_potential = fround improvement 3,
                    best_s1 = fround s1 3,
                    best_s2 = fround s2 3,
                    best_s3 = fround s3 3\<rparr>)"

text \<open>
  What the specification means by the best value of a column and by sector times that
  sum to the lap time: \<open>is_col_min xs m\<close> says that \<open>m\<close> is a least present value of
  the column, or NaN when no value is present.
\<close>

definition is_col_min :: "pyfloat list \<Rightarrow> pyfloat \<Rightarrow> bool" where
  "is_col_min xs m =
     (if dropna xs = [] then m = NaN
      else m \<in> set (dropna xs) \<and> list_all (\<lambda>y. \<not> flt y m) (dropna xs))"

definition sectors_sum_to_lap :: "lap_row \<Rightarrow> bool" where
  "sectors_sum_to_lap r =
     (is_fin (S1_SECONDS r) \<and> is_fin (S2_SECONDS r) \<and> is_fin (S3_SECONDS r) \<and>
      lap_time_seconds r = fadd (fadd (S1_SECONDS r) (S2_SECONDS r)) (S3_SECONDS r))"

text \<open>
  Lap times that rise by more than \<open>c\<close> seconds per lap: the lap numbers are distinct,
  every lap time is a finite number, and of any two laps the later one is slower by
  more than \<open>c\<close> times their distance in laps.  With \<open>c = 0\<close> the lap times are strictly
  increasing.
\<close>

definition seconds_of :: "lap_row \<Rightarrow> real" where
  "seconds_of r = (case lap_time_seconds r of Fin t \<Rightarrow> t | _ \<Rightarrow> 0)"

definition lap_times_rise :: "real \<Rightarrow> lap_row list \<Rightarrow> bool" where
  "lap_times_rise c rows =
     (distinct (map LAP_NUMBER rows) \<and>
      list_all (\<lambda>r. is_fin (lap_time_seconds r)) rows \<and>
      list_all (\<lambda>r. list_all (\<lambda>r'. LAP_NUMBER r < LAP_NUMBER r' \<longrightarrow>
          c * real_of_int (LAP_NUMBER r' - LAP_NUMBER r) < seconds_of r' - seconds_of r) rows) rows)"

section \<open>Example tables\<close>

text \<open>
  \<open>lap_entry\<close> builds a row; \<open>five_laps\<close> is a stint of vehicle 13 whose lap times
  rise from 96.0 s to 97.4 s, \<open>slow_rise_laps\<close> one
  whose lap times rise by a millisecond per lap, \<open>steady_laps\<close> a stint of vehicle 7 at a constant
  96.5 s, \<open>gap_laps\<close> a stint with laps 1 to 3, 21 and 22 that
  loses one second per lap, \<open>late_lap\<close> its lap 23, and \<open>stalled_lap\<close> the single
  row of a vehicle 5 whose recorded average speed is 0.
\<close>

definition lap_entry ::
  "int \<Rightarrow> int \<Rightarrow> string \<Rightarrow> real \<Rightarrow> real \<Rightarrow> real \<Rightarrow> real \<Rightarrow> real \<Rightarrow> lap_row" where
  "lap_entry v n time_str t s1 s2 s3 kph =
     \<lparr>NUMBER = v, LAP_NUMBER = n, LAP_TIME = time_str, lap_time_seconds = Fin t,
      S1_SECONDS = Fin s1, S2_SECONDS = Fin s2, S3_SECONDS = Fin s3, KPH = Fin kph\<rparr>"

definition five_laps :: "lap_row list" where
  "five_laps =
     [lap_entry 13 1 ''1:36.000'' 96.0 32.0 32.0 32.0 120,
      lap_entry 13 2 ''1:36.200'' 96.2 32.1 32.0 32.1 120,
      lap_entry 13 3 ''1:36.500'' 96.5 32.2 32.1 32.2 120,
      lap_entry 13 4 ''1:36.900'' 96.9 32.3 32.3 32.3 120,
      lap_entry 13 5 ''1:37.400'' 97.4 32.5 32.4 32.5 120]"


definition slow_rise_laps :: "lap_row list" where
  "slow_rise_laps =
     [lap_entry 13 1 ''1:36.000'' 96.000 32.0 32.0 32.0 120,
      lap_entry 13 2 ''1:36.001'' 96.001 32.0 32.0 32.001 120,
      lap_entry 13 3 ''1:36.002'' 96.002 32.0 32.001 32.001 120,
      lap_entry 13 4 ''1:36.003'' 96.003 32.001 32.001 32.001 120,
      lap_entry 13 5 ''1:36.004'' 96.004 32.001 32.001 32.002 120]"

definition steady_laps :: "lap_row list" where
  "steady_laps =
     [lap_entry 7 1 ''1:36.500'' 96.5 32.0 32.5 32.0 118,
      lap_entry 7 2 ''1:36.500'' 96.5 32.1 32.3 32.1 118,
      lap_entry 7 3 ''1:36.500'' 96.5 32.2 32.1 32.2 118,
      lap_entry 7 4 ''1:36.500'' 96.5 32.0 32.4 32.1 118,
      lap_entry 7 5 ''1:36.500'' 96.5 32.3 32.0 32.2 118]"



section \<open>Lap numbers\<close>

text \<open>
  C6, as stated, at lap 0: the claim calls every lap outside \<open>[1,100]\<close> invalid, but
  the guard of the code is \<open>lap < 0\<close>, so lap 0 is returned unchanged.
\<close>

theorem normalize_lap_number_zero_counterexample:
  "\<not> (normalize_lap_number 0 = - 1 \<longleftrightarrow> (0::int) = 32768 \<or> (0::int) < 1 \<or> (0::int) > 100)"
  by (simp add: normalize_lap_number_def)

text \<open>
  C6, amended: the invalid marker \<open>-1\<close> is returned exactly when the lap is the
  sentinel 32768 or lies outside \<open>[0,100]\<close>; every other lap, in particular 0, 1 and
  100, is returned unchanged.
\<close>

theorem normalize_lap_number_range:
  "(normalize_lap_number lap = - 1 \<longleftrightarrow> lap = 32768 \<or> lap < 0 \<or> lap > 100) \<and>
   (0 \<le> lap \<and> lap \<le> 100 \<longrightarrow> normalize_lap_number lap = lap)"
  by (simp add: normalize_lap_number_def)

theorem normalize_lap_number_range_witness:
  "(0::int) \<le> 100 \<and> (100::int) \<le> 100 \<and> normalize_lap_number 100 = 100"
  using normalize_lap_number_range [of 100] by simp

section \<open>Telemetry value cleaning\<close>

text \<open>
  C7: for every channel of the allow-list and every input value, the cleaned value
  is a finite number; for the channels with a declared range it lies in that range
  (the gear is moreover an integer), and an input that is not a finite number is
  replaced by the default of the channel.
\<close>

theorem clean_telemetry_value_in_range:
  assumes "param_name \<in> set KEY_PARAMETERS"
  shows "\<exists>r. clean_telemetry_value v param_name = Fin r \<and>
     (param_name \<in> {''aps'', ''ath''} \<longrightarrow> 0 \<le> r \<and> r \<le> 100) \<and>
     (param_name = ''speed'' \<longrightarrow> 0 \<le> r \<and> r \<le> 250) \<and>
     (param_name = ''gear'' \<longrightarrow> r \<in> \<int> \<and> 0 \<le> r \<and> r \<le> 6) \<and>
     (param_name = ''nmot'' \<longrightarrow> 0 \<le> r \<and> r \<le> 8500) \<and>
     (param_name = ''Steering_Angle'' \<longrightarrow> - 540 \<le> r \<and> r \<le> 540) \<and>
     (param_name \<in> {''accx_can'', ''accy_can''} \<longrightarrow> - 3 \<le> r \<and> r \<le> 3) \<and>
     ((\<forall>x. v \<noteq> Numeric (Fin x)) \<longrightarrow> r = get_default_value param_name)"
  using assms
  by (cases v rule: raw_value.exhaust; (cases "case v of Numeric f \<Rightarrow> f | _ \<Rightarrow> NaN"))
     (auto simp: KEY_PARAMETERS_def clean_telemetry_value_def get_default_value_def defaults_def)

theorem clean_telemetry_value_in_range_witness:
  "''gear'' \<in> set KEY_PARAMETERS \<and>
   (\<exists>r. clean_telemetry_value (Numeric (Fin 7.9)) ''gear'' = Fin r \<and> r \<in> \<int> \<and> 0 \<le> r \<and> r \<le> 6) \<and>
   (\<exists>r. clean_telemetry_value NonNumeric ''gear'' = Fin r \<and> r = get_default_value ''gear'')"
proof -
  have h: "''gear'' \<in> set KEY_PARAMETERS" by (simp add: KEY_PARAMETERS_def)
  show ?thesis
    using h clean_telemetry_value_in_range [OF h, of "Numeric (Fin 7.9)"]
      clean_telemetry_value_in_range [OF h, of NonNumeric]
    by auto
qed

section \<open>Lap-time parsing\<close>

text \<open>
  C5 at the string \<open>1:2:3\<close>: \<open>_time_to_seconds\<close> yields the absent marker, as it does
  for \<open>abc\<close>, but \<open>parse_time\<close> reads the first two fields and returns 62 seconds.
\<close>

theorem parse_time_three_fields:
  "parse_time ''1:2:3'' = Some (Fin 62) \<and> time_to_seconds ''1:2:3'' = None \<and>
   parse_time ''abc'' = None \<and> time_to_seconds ''abc'' = None"
  by (simp add: parse_time_def time_to_seconds_def py_float_def py_int_def split_sign_def
      strip_def is_space_def mantissa_def exponent_def digitpart_def digit_val_def scale10_def
      ascii_lower_def)

section \<open>Pit-window prediction\<close>

declare show_nat.simps [simp del]

lemmas predict_eval =
  predict_pit_window_def analyze_lap_degradation_def col_min_def dropna_def isna_def
  diff_def clip_def recent_window_def tail_def fit_recent_def LinearRegression_fit_def
  least_squares_def avg_def py_trunc_def py_round_def round_half_even_def show_int_def
  show_nat.simps fsub_def Let_def lap_entry_def

lemma fsub_Fin: "fsub (Fin a) (Fin b) = Fin (a - b)"
  by (simp add: fsub_def)

lemma length_diff: "length (diff xs) = length xs"
  by (cases xs) (simp_all add: diff_def)

lemma length_analyze_lap_degradation:
  "length (analyze_lap_degradation df v) = length (filter (\<lambda>r. NUMBER r = v) df)"
  by (simp add: analyze_lap_degradation_def length_diff Let_def)

lemma predict_insufficient:
  assumes "length (filter (\<lambda>r. NUMBER r = v) df) < 5"
  shows "predict_pit_window df v cur tot =
      Inr \<lparr>pit_lap = None, laps_remaining = None, degradation_rate = None,
           current_delta = None, confidence = 0, message = ''Insufficient data''\<rparr>"
  using assms by (simp add: predict_pit_window_def length_analyze_lap_degradation)

lemma predict_degrading:
  assumes "5 \<le> length (filter (\<lambda>r. NUMBER r = v) df)"
      and "fit_recent (recent_window (analyze_lap_degradation df v) cur) = Inr (rate, c)"
      and "0.01 < rate"
  shows "\<exists>d. predict_pit_window df v cur tot = Inr d \<and>
           pit_lap d = Some (max (cur + 1)
              (min (py_trunc (real_of_int cur + (1.5 - (c + rate * real_of_int cur)) / rate))
                 (tot - 2))) \<and>
           confidence d =
             min 100 (int (length (recent_window (analyze_lap_degradation df v) cur)) * 20)"
  using assms by (simp add: predict_pit_window_def length_analyze_lap_degradation Let_def)

lemma predict_stable:
  assumes "5 \<le> length (filter (\<lambda>r. NUMBER r = v) df)"
      and "fit_recent (recent_window (analyze_lap_degradation df v) cur) = Inr (rate, c)"
      and "rate \<le> 0.01"
  shows "\<exists>d. predict_pit_window df v cur tot = Inr d \<and> pit_lap d = Some (tot - 1) \<and>
           confidence d = 50"
  using assms by (simp add: predict_pit_window_def length_analyze_lap_degradation Let_def)

lemma is_fin_iff: "is_fin y \<longleftrightarrow> (\<exists>a. y = Fin a)"
  by (cases y) auto

lemma those_map_fin_val:
  "(\<forall>y\<in>set ys. \<exists>a. y = Fin a) \<Longrightarrow> \<exists>rs. those (map fin_val ys) = Some rs"
  by (induction ys) auto

lemma foldl_min_fin:
  "(\<forall>y\<in>set ys. \<exists>a. y = Fin a) \<Longrightarrow>
     \<exists>b. foldl (\<lambda>m x. if flt x m then x else m) (Fin a) ys = Fin b"
  by (induction ys arbitrary: a) auto

lemma dropna_fin: "(\<forall>y\<in>set xs. \<exists>a. y = Fin a) \<Longrightarrow> dropna xs = xs"
  by (auto simp: dropna_def isna_def filter_id_conv)

lemma col_min_fin:
  assumes "xs \<noteq> []" "\<forall>y\<in>set xs. \<exists>a. y = Fin a"
  shows "\<exists>b. col_min xs = Fin b"
proof -
  have "dropna xs = xs" using assms(2) by (rule dropna_fin)
  moreover obtain y ys where "xs = y # ys" using assms(1) by (cases xs) auto
  ultimately show ?thesis using assms(2) foldl_min_fin [of ys] by (auto simp: col_min_def)
qed

lemma delta_to_best_fin:
  assumes "\<forall>r\<in>set df. NUMBER r = v \<longrightarrow> is_fin (lap_time_seconds r)"
      and "d \<in> set (analyze_lap_degradation df v)"
  shows "\<exists>a. delta_to_best d = Fin a"
proof -
  let ?vl = "sort_key LAP_NUMBER (filter (\<lambda>r. NUMBER r = v) df)"
  from assms(2) obtain r x where "(r, x) \<in> set (zip ?vl (diff (map lap_time_seconds ?vl)))"
    and d: "delta_to_best d = fsub (lap_time_seconds r) (col_min (map lap_time_seconds ?vl))"
    by (auto simp: analyze_lap_degradation_def Let_def)
  then have r: "r \<in> set ?vl" by (auto dest: set_zip_leftD)
  have fin: "\<forall>y\<in>set (map lap_time_seconds ?vl). \<exists>a. y = Fin a"
    using assms(1) by (auto simp: is_fin_iff)
  have "?vl \<noteq> []" using r by (metis empty_iff list.set(1))
  then have "map lap_time_seconds ?vl \<noteq> []" by simp
  then obtain b where "col_min (map lap_time_seconds ?vl) = Fin b" using col_min_fin fin by blast
  moreover obtain a where "lap_time_seconds r = Fin a"
    using r assms(1) by (auto simp: is_fin_iff)
  ultimately show ?thesis using d by (simp add: fsub_def)
qed

lemma set_recent_window: "set (recent_window ls cur) \<subseteq> set ls"
  by (auto simp: recent_window_def tail_def Let_def dest: in_set_dropD)

lemma fit_recent_fin:
  assumes "\<forall>r\<in>set df. NUMBER r = v \<longrightarrow> is_fin (lap_time_seconds r)"
  shows "\<exists>rate c. fit_recent (recent_window (analyze_lap_degradation df v) cur) = Inr (rate, c)"
proof -
  let ?w = "recent_window (analyze_lap_degradation df v) cur"
  have "\<forall>y\<in>set (map delta_to_best ?w). \<exists>a. y = Fin a"
    using delta_to_best_fin [OF assms] set_recent_window by fastforce
  then obtain rs where "those (map fin_val (map delta_to_best ?w)) = Some rs"
    using those_map_fin_val by blast
  then show ?thesis by (simp add: fit_recent_def LinearRegression_fit_def prod_eq_iff)
qed

lemma length_recent_window:
  "5 \<le> length ls \<Longrightarrow> 3 \<le> length (recent_window ls cur)"
  by (simp add: recent_window_def tail_def Let_def)

text \<open>
  With five rows of which only two carry a lap time, the sufficiency check passes and
  the missing values reach the regression, which rejects them.
\<close>

lemma predict_pit_window_missing_times:
  "predict_pit_window
     (map (\<lambda>r. r\<lparr>lap_time_seconds := NaN\<rparr>) (take 3 five_laps) @ drop 3 five_laps) 13 5 27 =
     Inl ValueError"
  by (simp add: five_laps_def predict_eval)

text \<open>
  C2, as stated, at a vehicle with three laps of valid history: no regression is
  fitted, the result is the zero-confidence one without a pit lap.
\<close>

theorem predict_pit_window_three_laps_counterexample:
  "map lap_time_seconds (take 3 five_laps) = [Fin 96.0, Fin 96.2, Fin 96.5] \<and>
   map NUMBER (take 3 five_laps) = [13, 13, 13] \<and>
   predict_pit_window (take 3 five_laps) 13 3 27 =
     Inr \<lparr>pit_lap = None, laps_remaining = None, degradation_rate = None,
          current_delta = None, confidence = 0, message = ''Insufficient data''\<rparr>"
  by (simp add: five_laps_def predict_eval)

text \<open>
  C2, amended: the minimum is 5 lap rows.  A vehicle with fewer than 5 rows gets the
  zero-confidence result without a pit lap; a vehicle with at least 5 rows, all with
  a finite lap time, gets a recommendation: a pit lap, with confidence at least 50.
\<close>

theorem predict_pit_window_minimum_laps:
  "(length (filter (\<lambda>r. NUMBER r = v) df) < 5 \<longrightarrow>
      predict_pit_window df v cur tot =
        Inr \<lparr>pit_lap = None, laps_remaining = None, degradation_rate = None,
             current_delta = None, confidence = 0, message = ''Insufficient data''\<rparr>) \<and>
   (5 \<le> length (filter (\<lambda>r. NUMBER r = v) df) \<and>
    (\<forall>r\<in>set df. NUMBER r = v \<longrightarrow> is_fin (lap_time_seconds r)) \<longrightarrow>
      (\<exists>d p. predict_pit_window df v cur tot = Inr d \<and> pit_lap d = Some p \<and>
         50 \<le> confidence d))"
proof (intro conjI impI)
  assume "length (filter (\<lambda>r. NUMBER r = v) df) < 5"
  then show "predict_pit_window df v cur tot =
        Inr \<lparr>pit_lap = None, laps_remaining = None, degradation_rate = None,
             current_delta = None, confidence = 0, message = ''Insufficient data''\<rparr>"
    by (rule predict_insufficient)
next
  assume h: "5 \<le> length (filter (\<lambda>r. NUMBER r = v) df) \<and>
    (\<forall>r\<in>set df. NUMBER r = v \<longrightarrow> is_fin (lap_time_seconds r))"
  then obtain rate c
    where fit: "fit_recent (recent_window (analyze_lap_degradation df v) cur) = Inr (rate, c)"
    using fit_recent_fin by blast
  have len: "3 \<le> length (recent_window (analyze_lap_degradation df v) cur)"
    using h by (simp add: length_recent_window length_analyze_lap_degradation)
  show "\<exists>d p. predict_pit_window df v cur tot = Inr d \<and> pit_lap d = Some p \<and>
          50 \<le> confidence d"
  proof (cases "0.01 < rate")
    case True
    from predict_degrading [OF conjunct1 [OF h] fit True, of tot] len show ?thesis by auto
  next
    case False
    then have "rate \<le> 0.01" by simp
    from predict_stable [OF conjunct1 [OF h] fit this, of tot] show ?thesis by auto
  qed
qed

theorem predict_pit_window_minimum_laps_witness:
  "length (filter (\<lambda>r. NUMBER r = 13) (take 4 five_laps)) < 5 \<and>
   predict_pit_window (take 4 five_laps) 13 4 27 =
     Inr \<lparr>pit_lap = None, laps_remaining = None, degradation_rate = None,
          current_delta = None, confidence = 0, message = ''Insufficient data''\<rparr> \<and>
   5 \<le> length (filter (\<lambda>r. NUMBER r = 13) five_laps) \<and>
   list_all (\<lambda>r. is_fin (lap_time_seconds r)) five_laps \<and>
   (\<exists>d p. predict_pit_window five_laps 13 5 27 = Inr d \<and> pit_lap d = Some p \<and>
      50 \<le> confidence d)"
proof -
  have a: "length (filter (\<lambda>r. NUMBER r = 13) (take 4 five_laps)) < 5"
    by (simp add: five_laps_def lap_entry_def)
  have b: "5 \<le> length (filter (\<lambda>r. NUMBER r = 13) five_laps)"
    by (simp add: five_laps_def lap_entry_def)
  have c: "list_all (\<lambda>r. is_fin (lap_time_seconds r)) five_laps"
    by (simp add: five_laps_def lap_entry_def)
  then have c': "\<forall>r\<in>set five_laps. NUMBER r = 13 \<longrightarrow> is_fin (lap_time_seconds r)"
    by (simp add: list_all_iff)
  show ?thesis
    using a b c c' predict_pit_window_minimum_laps [of 13 "take 4 five_laps" 4 27]
      predict_pit_window_minimum_laps [of 13 five_laps 5 27]
    by blast
qed

subsection \<open>The slope of the regression on rising lap times\<close>

lemma inner_sum:
  fixes f g :: "'a \<Rightarrow> real"
  shows "(\<Sum>b\<leftarrow>l. (x - f b) * (u - g b)) =
         real (length l) * (x * u) - x * (\<Sum>b\<leftarrow>l. g b) - u * (\<Sum>b\<leftarrow>l. f b) + (\<Sum>b\<leftarrow>l. f b * g b)"
  by (induction l) (simp_all add: algebra_simps)

lemma double_sum:
  fixes f g :: "'a \<Rightarrow> real"
  shows "(\<Sum>a\<leftarrow>l. \<Sum>b\<leftarrow>l. (f a - f b) * (g a - g b)) =
         2 * (real (length l) * (\<Sum>a\<leftarrow>l. f a * g a) - (\<Sum>a\<leftarrow>l. f a) * (\<Sum>a\<leftarrow>l. g a))"
proof -
  define n where "n = real (length l)"
  define sf where "sf = (\<Sum>b\<leftarrow>l. f b)"
  define sg where "sg = (\<Sum>b\<leftarrow>l. g b)"
  define sfg where "sfg = (\<Sum>b\<leftarrow>l. f b * g b)"
  have "(\<Sum>a\<leftarrow>l. \<Sum>b\<leftarrow>l. (f a - f b) * (g a - g b)) =
        (\<Sum>a\<leftarrow>l. n * (f a * g a) - f a * sg - g a * sf + sfg)"
    by (simp add: inner_sum n_def sf_def sg_def sfg_def)
  also have "\<dots> = (\<Sum>a\<leftarrow>l. n * (f a * g a)) - (\<Sum>a\<leftarrow>l. f a * sg) - (\<Sum>a\<leftarrow>l. g a * sf)
       + (\<Sum>a\<leftarrow>l. sfg)"
    by (simp add: sum_list_addf sum_list_subtractf)
  also have "(\<Sum>a\<leftarrow>l. n * (f a * g a)) = n * sfg"
    by (simp add: sum_list_const_mult sfg_def)
  also have "(\<Sum>a\<leftarrow>l. f a * sg) = sf * sg"
    by (simp add: sum_list_mult_const sf_def)
  also have "(\<Sum>a\<leftarrow>l. g a * sf) = sg * sf"
    by (simp add: sum_list_mult_const sg_def)
  also have "(\<Sum>a\<leftarrow>l. sfg) = n * sfg"
    by (simp add: sum_list_triv n_def)
  finally show ?thesis by (simp add: n_def sf_def sg_def sfg_def algebra_simps)
qed

lemma centred_sum:
  fixes f g :: "'a \<Rightarrow> real"
  assumes "l \<noteq> []"
  shows "real (length l) * (\<Sum>a\<leftarrow>l. (f a - avg (map f l)) * (g a - avg (map g l))) =
         real (length l) * (\<Sum>a\<leftarrow>l. f a * g a) - (\<Sum>a\<leftarrow>l. f a) * (\<Sum>a\<leftarrow>l. g a)"
proof -
  define n where "n = real (length l)"
  define sf where "sf = (\<Sum>b\<leftarrow>l. f b)"
  define sg where "sg = (\<Sum>b\<leftarrow>l. g b)"
  define sfg where "sfg = (\<Sum>b\<leftarrow>l. f b * g b)"
  have n: "n \<noteq> 0" using assms by (simp add: n_def)
  have "(\<Sum>a\<leftarrow>l. (f a - sf / n) * (g a - sg / n)) =
        (\<Sum>a\<leftarrow>l. (sf / n - f a) * (sg / n - g a))"
    by (rule arg_cong [where f = sum_list]) (simp add: algebra_simps)
  also have "\<dots> = n * ((sf / n) * (sg / n)) - (sf / n) * sg - (sg / n) * sf + sfg"
    unfolding n_def sf_def sg_def sfg_def by (rule inner_sum)
  also have "\<dots> = sfg - sf * sg / n" using n by (simp add: field_simps)
  finally have "(\<Sum>a\<leftarrow>l. (f a - sf / n) * (g a - sg / n)) = sfg - sf * sg / n" .
  then have "n * (\<Sum>a\<leftarrow>l. (f a - sf / n) * (g a - sg / n)) = n * sfg - sf * sg"
    using n by (simp add: field_simps)
  then show ?thesis by (simp add: avg_def n_def sf_def sg_def sfg_def)
qed

lemma sum_list_pos_member:
  fixes xs :: "real list"
  assumes "\<forall>x\<in>set xs. 0 \<le> x" "y \<in> set xs" "0 < y"
  shows "0 < sum_list xs"
  using assms
proof (induction xs)
  case Nil
  then show ?case by simp
next
  case (Cons x xs)
  have "0 \<le> sum_list xs" using Cons.prems(1) by (simp add: sum_list_nonneg)
  show ?case
  proof (cases "y = x")
    case True
    then show ?thesis using \<open>0 \<le> sum_list xs\<close> Cons.prems(3) by simp
  next
    case False
    then have "0 < sum_list xs" using Cons by simp
    then show ?thesis using Cons.prems(1) by (simp add: add_nonneg_pos)
  qed
qed

text \<open>Co-monotone data have a positive centred cross sum.\<close>

lemma comonotone_positive:
  fixes f g :: "'a \<Rightarrow> real"
  assumes pair: "\<forall>a\<in>set l. \<forall>b\<in>set l. f a < f b \<longrightarrow> g a < g b"
      and two: "p \<in> set l" "q \<in> set l" "f p < f q"
  shows "0 < (\<Sum>a\<leftarrow>l. (f a - avg (map f l)) * (g a - avg (map g l)))"
proof -
  have ne: "l \<noteq> []" using two(1) by auto
  have nonneg: "0 \<le> (f a - f b) * (g a - g b)" if "a \<in> set l" "b \<in> set l" for a b
  proof -
    consider "f a < f b" | "f a = f b" | "f b < f a" by linarith
    then show ?thesis
    proof cases
      case 1
      then have "g a < g b" using pair that by blast
      then show ?thesis using 1 by (simp add: mult_nonpos_nonpos)
    next
      case 2
      then show ?thesis by simp
    next
      case 3
      then have "g b < g a" using pair that by blast
      then show ?thesis using 3 by simp
    qed
  qed
  have inner: "0 \<le> (\<Sum>b\<leftarrow>l. (f a - f b) * (g a - g b))" if "a \<in> set l" for a
  proof (rule sum_list_nonneg)
    fix x assume "x \<in> set (map (\<lambda>b. (f a - f b) * (g a - g b)) l)"
    then obtain b where "b \<in> set l" "x = (f a - f b) * (g a - g b)" by auto
    then show "0 \<le> x" using nonneg [OF that] by simp
  qed
  have "g p < g q" using pair two by blast
  then have pq: "0 < (f p - f q) * (g p - g q)" using two(3) by (simp add: mult_neg_neg)
  have row_nonneg: "\<forall>x\<in>set (map (\<lambda>b. (f p - f b) * (g p - g b)) l). 0 \<le> x"
    using nonneg [OF two(1)] by simp
  have row_mem: "(f p - f q) * (g p - g q) \<in> set (map (\<lambda>b. (f p - f b) * (g p - g b)) l)"
    using two(2) by (simp add: image_iff) blast
  have row: "0 < (\<Sum>b\<leftarrow>l. (f p - f b) * (g p - g b))"
    using row_nonneg row_mem pq by (rule sum_list_pos_member)
  have all_nonneg: "\<forall>x\<in>set (map (\<lambda>a. \<Sum>b\<leftarrow>l. (f a - f b) * (g a - g b)) l). 0 \<le> x"
    using inner by simp
  have all_mem: "(\<Sum>b\<leftarrow>l. (f p - f b) * (g p - g b))
      \<in> set (map (\<lambda>a. \<Sum>b\<leftarrow>l. (f a - f b) * (g a - g b)) l)"
    using two(1) by (simp add: image_iff) blast
  have "0 < (\<Sum>a\<leftarrow>l. \<Sum>b\<leftarrow>l. (f a - f b) * (g a - g b))"
    using all_nonneg all_mem row by (rule sum_list_pos_member)
  then have "0 < real (length l) * (\<Sum>a\<leftarrow>l. (f a - avg (map f l)) * (g a - avg (map g l)))"
    by (simp add: double_sum centred_sum [OF ne])
  then show ?thesis using ne by (simp add: zero_less_mult_iff)
qed

lemma map2_map_map: "map2 h (map f l) (map g l) = map (\<lambda>a. h (f a) (g a)) l"
  by (induction l) simp_all

lemma avg_diff_scaled:
  fixes f g :: "'a \<Rightarrow> real"
  shows "avg (map (\<lambda>a. g a - c * f a) l) = avg (map g l) - c * avg (map f l)"
  by (simp add: avg_def sum_list_subtractf sum_list_const_mult diff_divide_distrib)

lemma slope_exceeds:
  fixes f g :: "'a \<Rightarrow> real"
  assumes rise: "\<forall>a\<in>set l. \<forall>b\<in>set l. f a < f b \<longrightarrow> c * (f b - f a) < g b - g a"
      and two: "p \<in> set l" "q \<in> set l" "f p < f q"
  shows "c < fst (least_squares (map f l) (map g l))"
proof -
  define fm where "fm = avg (map f l)"
  define gm where "gm = avg (map g l)"
  define sxx where "sxx = (\<Sum>a\<leftarrow>l. (f a - fm) * (f a - fm))"
  define sxy where "sxy = (\<Sum>a\<leftarrow>l. (f a - fm) * (g a - gm))"
  let ?u = "\<lambda>a. g a - c * f a"
  have "\<forall>a\<in>set l. \<forall>b\<in>set l. f a < f b \<longrightarrow> ?u a < ?u b"
    using rise by (auto simp: algebra_simps)
  from comonotone_positive [OF this two]
  have "0 < (\<Sum>a\<leftarrow>l. (f a - fm) * (?u a - (gm - c * fm)))"
    by (simp add: avg_diff_scaled fm_def gm_def)
  also have "(\<Sum>a\<leftarrow>l. (f a - fm) * (?u a - (gm - c * fm))) =
      (\<Sum>a\<leftarrow>l. (f a - fm) * (g a - gm) - c * ((f a - fm) * (f a - fm)))"
    by (rule arg_cong [where f = sum_list]) (simp add: algebra_simps)
  also have "\<dots> = sxy - c * sxx"
    by (simp add: sum_list_subtractf sum_list_const_mult sxy_def sxx_def)
  finally have diff: "0 < sxy - c * sxx" .
  have "\<forall>a\<in>set l. \<forall>b\<in>set l. f a < f b \<longrightarrow> f a < f b" by simp
  from comonotone_positive [OF this two]
  have pos: "0 < sxx" by (simp add: sxx_def fm_def)
  have "least_squares (map f l) (map g l) = (sxy / sxx, gm - sxy / sxx * fm)"
    using pos by (simp add: least_squares_def Let_def map2_map_map o_def sxx_def sxy_def
        fm_def gm_def)
  moreover have "c < sxy / sxx" using diff pos by (simp add: pos_less_divide_eq)
  ultimately show ?thesis by simp
qed

lemma those_map_fin_val_eq:
  "(\<forall>y\<in>set ys. is_fin y) \<Longrightarrow> those (map fin_val ys) = Some (map fin_or_zero ys)"
  by (induction ys) (auto simp: is_fin_iff fin_or_zero_def)

lemma map_base_analyze:
  "map base (analyze_lap_degradation df v) =
     sort_key LAP_NUMBER (filter (\<lambda>r. NUMBER r = v) df)"
  by (simp add: analyze_lap_degradation_def Let_def o_def case_prod_unfold length_diff)

lemma distinct_map_insort_key:
  "distinct (map f (insort_key f x xs)) \<longleftrightarrow> f x \<notin> f ` set xs \<and> distinct (map f xs)"
  by (induction xs) (auto simp: set_insort_key)

lemma distinct_map_sort_key: "distinct (map f (sort_key f xs)) \<longleftrightarrow> distinct (map f xs)"
  by (induction xs) (simp_all add: distinct_map_insort_key)

lemma distinct_recent_window:
  assumes "distinct (map k ls)"
  shows "distinct (map k (recent_window ls cur))"
proof -
  have "distinct (map k (filter P ls))" for P using assms by (rule distinct_map_filter)
  moreover have "distinct (map k (drop n ls))" for n
  proof -
    have "distinct (drop n (map k ls))" using assms by (rule distinct_drop)
    then show ?thesis by (simp only: drop_map)
  qed
  ultimately show ?thesis by (simp add: recent_window_def tail_def Let_def)
qed

lemma two_distinct_keys:
  fixes k :: "'a \<Rightarrow> int"
  assumes "2 \<le> length w" "distinct (map k w)"
  shows "\<exists>p\<in>set w. \<exists>q\<in>set w. k p < k q"
proof -
  obtain a b rest where w: "w = a # b # rest"
    using assms(1) by (cases w; cases "tl w") auto
  then have "k a \<noteq> k b" using assms(2) by auto
  then consider "k a < k b" | "k b < k a" by linarith
  then show ?thesis using w by cases auto
qed

lemma analyze_row:
  assumes "d \<in> set (analyze_lap_degradation df v)"
  shows "base d \<in> set (filter (\<lambda>r. NUMBER r = v) df) \<and>
         delta_to_best d = fsub (lap_time_seconds (base d))
           (col_min (map lap_time_seconds (sort_key LAP_NUMBER (filter (\<lambda>r. NUMBER r = v) df))))"
proof -
  let ?s = "sort_key LAP_NUMBER (filter (\<lambda>r. NUMBER r = v) df)"
  from assms obtain r x where "(r, x) \<in> set (zip ?s (diff (map lap_time_seconds ?s)))"
    and "base d = r"
    and "delta_to_best d = fsub (lap_time_seconds r) (col_min (map lap_time_seconds ?s))"
    by (auto simp: analyze_lap_degradation_def Let_def)
  moreover from this(1) have "r \<in> set ?s" by (rule set_zip_leftD)
  ultimately show ?thesis by simp
qed

lemma analyze_row_fin:
  assumes fin: "\<forall>r\<in>set (filter (\<lambda>r. NUMBER r = v) df). is_fin (lap_time_seconds r)"
      and d: "d \<in> set (analyze_lap_degradation df v)"
  shows "\<exists>m. \<forall>e\<in>set (analyze_lap_degradation df v).
           base e \<in> set (filter (\<lambda>r. NUMBER r = v) df) \<and>
           delta_to_best e = Fin (seconds_of (base e) - m)"
proof -
  let ?vl = "filter (\<lambda>r. NUMBER r = v) df"
  let ?s = "sort_key LAP_NUMBER ?vl"
  from analyze_row [OF d] have "base d \<in> set ?vl" by (rule conjunct1)
  then have "?vl \<noteq> []" by (metis empty_iff list.set(1))
  then have sne: "map lap_time_seconds ?s \<noteq> []"
    by (metis length_0_conv length_map length_sort)
  have "\<forall>y\<in>set (map lap_time_seconds ?s). \<exists>a. y = Fin a"
    using fin by (auto simp: is_fin_iff)
  from col_min_fin [OF sne this] obtain b where b: "col_min (map lap_time_seconds ?s) = Fin b"
    by blast
  have "base e \<in> set ?vl \<and> delta_to_best e = Fin (seconds_of (base e) - b)"
    if "e \<in> set (analyze_lap_degradation df v)" for e
  proof -
    from analyze_row [OF that] have r: "base e \<in> set ?vl"
      and de: "delta_to_best e = fsub (lap_time_seconds (base e)) (Fin b)"
      using b by simp_all
    from r fin obtain t where t: "lap_time_seconds (base e) = Fin t"
      by (auto simp: is_fin_iff)
    show ?thesis using r de t by (simp add: fsub_Fin seconds_of_def)
  qed
  then show ?thesis by blast
qed

lemma distinct_lap_numbers_analyze:
  assumes "distinct (map LAP_NUMBER (filter (\<lambda>r. NUMBER r = v) df))"
  shows "distinct (map (\<lambda>d. LAP_NUMBER (base d)) (analyze_lap_degradation df v))"
proof -
  have "map (\<lambda>d. LAP_NUMBER (base d)) (analyze_lap_degradation df v) =
      map LAP_NUMBER (map base (analyze_lap_degradation df v))"
    by (simp add: o_def)
  also have "\<dots> = map LAP_NUMBER (sort_key LAP_NUMBER (filter (\<lambda>r. NUMBER r = v) df))"
    by (simp only: map_base_analyze)
  finally show ?thesis using assms by (simp only: distinct_map_sort_key)
qed

lemma rising_fit:
  assumes len: "5 \<le> length (filter (\<lambda>r. NUMBER r = v) df)"
      and rise: "lap_times_rise c (filter (\<lambda>r. NUMBER r = v) df)"
  shows "\<exists>rate i. fit_recent (recent_window (analyze_lap_degradation df v) cur) = Inr (rate, i) \<and>
           c < rate"
proof -
  define vl where "vl = filter (\<lambda>r. NUMBER r = v) df"
  define A where "A = analyze_lap_degradation df v"
  define w where "w = recent_window A cur"
  define fx :: "deg_row \<Rightarrow> real" where "fx = (\<lambda>d. real_of_int (LAP_NUMBER (base d)))"
  define gv :: "deg_row \<Rightarrow> real" where "gv = (\<lambda>d. fin_or_zero (delta_to_best d))"
  have dist: "distinct (map LAP_NUMBER vl)"
    and fin: "\<forall>r\<in>set vl. is_fin (lap_time_seconds r)"
    and pairs: "\<forall>r\<in>set vl. \<forall>r'\<in>set vl. LAP_NUMBER r < LAP_NUMBER r' \<longrightarrow>
        c * real_of_int (LAP_NUMBER r' - LAP_NUMBER r) < seconds_of r' - seconds_of r"
    using rise unfolding vl_def by (simp_all add: lap_times_rise_def list_all_iff)
  have lenw: "3 \<le> length w"
    using len unfolding w_def A_def
    by (simp add: length_recent_window length_analyze_lap_degradation)
  have sub: "set w \<subseteq> set A" unfolding w_def by (rule set_recent_window)
  obtain d0 where d0: "d0 \<in> set w" using lenw by (cases w) auto
  then have "d0 \<in> set (analyze_lap_degradation df v)" using sub by (auto simp: A_def)
  from analyze_row_fin [OF fin [unfolded vl_def] this] obtain m
    where rows: "\<forall>e\<in>set A. base e \<in> set vl \<and> delta_to_best e = Fin (seconds_of (base e) - m)"
    unfolding A_def vl_def by blast
  have roww: "base e \<in> set vl \<and> delta_to_best e = Fin (seconds_of (base e) - m)"
    if "e \<in> set w" for e using rows sub that by blast
  have allfin: "\<forall>y\<in>set (map delta_to_best w). is_fin y"
  proof
    fix y assume "y \<in> set (map delta_to_best w)"
    then obtain e where "e \<in> set w" "y = delta_to_best e" by auto
    then show "is_fin y" using roww by simp
  qed
  have xs: "map real_of_int (map (\<lambda>r. LAP_NUMBER (base r)) w) = map fx w"
    by (simp add: fx_def o_def)
  have ys: "map fin_or_zero (map delta_to_best w) = map gv w"
    by (simp add: gv_def o_def)
  have fit: "fit_recent w = Inr (least_squares (map fx w) (map gv w))"
    unfolding fit_recent_def LinearRegression_fit_def
    by (simp only: those_map_fin_val_eq [OF allfin] option.case xs ys)
  have gvw: "gv e = seconds_of (base e) - m" if "e \<in> set w" for e
    using roww [OF that] by (simp add: gv_def fin_or_zero_def)
  have mono: "\<forall>a\<in>set w. \<forall>b\<in>set w. fx a < fx b \<longrightarrow> c * (fx b - fx a) < gv b - gv a"
  proof (intro ballI impI)
    fix a b assume a: "a \<in> set w" and b: "b \<in> set w" and lt: "fx a < fx b"
    have ra: "base a \<in> set vl" and rb: "base b \<in> set vl" using roww a b by simp_all
    have "LAP_NUMBER (base a) < LAP_NUMBER (base b)" using lt by (simp add: fx_def)
    then have "c * real_of_int (LAP_NUMBER (base b) - LAP_NUMBER (base a))
        < seconds_of (base b) - seconds_of (base a)"
      using pairs ra rb by blast
    then show "c * (fx b - fx a) < gv b - gv a"
      by (simp add: gvw [OF a] gvw [OF b] fx_def)
  qed
  have "distinct (map (\<lambda>d. LAP_NUMBER (base d)) A)"
    unfolding A_def using dist [unfolded vl_def] by (rule distinct_lap_numbers_analyze)
  then have dw: "distinct (map (\<lambda>d. LAP_NUMBER (base d)) w)"
    unfolding w_def by (rule distinct_recent_window)
  have "2 \<le> length w" using lenw by simp
  from two_distinct_keys [OF this dw] obtain p q
    where pq: "p \<in> set w" "q \<in> set w" "fx p < fx q" by (auto simp: fx_def)
  have "c < fst (least_squares (map fx w) (map gv w))"
    using mono pq by (rule slope_exceeds)
  moreover obtain rate i where "least_squares (map fx w) (map gv w) = (rate, i)"
    by (cases "least_squares (map fx w) (map gv w)")
  ultimately show ?thesis using fit unfolding w_def A_def by simp
qed

text \<open>
  C1, as stated, at two stints with strictly increasing lap times.  On lap 5 of 7 the
  recommended pit lap is 6, above \<open>total_laps - 2 = 5\<close>.  With lap times that rise by a
  millisecond per lap the fitted rate is 0.001, the stint counts as stable, and the
  recommended pit lap is \<open>total_laps - 1 = 26\<close>.
\<close>

theorem predict_pit_window_late_race_counterexample:
  "lap_times_rise 0 five_laps \<and> lap_times_rise 0 slow_rise_laps \<and>
   predict_pit_window five_laps 13 5 7 =
     Inr \<lparr>pit_lap = Some 6, laps_remaining = Some 0, degradation_rate = Some 0.35,
          current_delta = Some 1.3, confidence = 100,
          message = ''Pit recommended in 0 laps''\<rparr> \<and>
   \<not> (6::int) \<le> 7 - 2 \<and>
   predict_pit_window slow_rise_laps 13 5 27 =
     Inr \<lparr>pit_lap = Some 26, laps_remaining = Some 22, degradation_rate = Some 0.001,
          current_delta = None, confidence = 50,
          message = ''Tires stable, can extend stint''\<rparr> \<and>
   \<not> (26::int) \<le> 27 - 2"
  by (simp add: five_laps_def slow_rise_laps_def predict_eval lap_times_rise_def seconds_of_def)

text \<open>
  C1, amended: for a vehicle with at least 5 lap rows whose lap times rise by more
  than 0.01 s per lap, the recommended pit lap is at least \<open>current_lap + 1\<close>, and it
  is at most \<open>total_laps - 2\<close> whenever \<open>current_lap + 1 \<le> total_laps - 2\<close>.
\<close>

theorem predict_pit_window_clamped:
  assumes "5 \<le> length (filter (\<lambda>r. NUMBER r = v) df)"
      and "lap_times_rise 0.01 (filter (\<lambda>r. NUMBER r = v) df)"
  shows "\<exists>d p. predict_pit_window df v cur tot = Inr d \<and> pit_lap d = Some p \<and>
           cur + 1 \<le> p \<and> (cur + 1 \<le> tot - 2 \<longrightarrow> p \<le> tot - 2)"
proof -
  from rising_fit [OF assms, of cur] obtain rate i
    where fit: "fit_recent (recent_window (analyze_lap_degradation df v) cur) = Inr (rate, i)"
      and rate: "0.01 < rate"
    by blast
  from predict_degrading [OF assms(1) fit rate, of tot] show ?thesis by auto
qed

theorem predict_pit_window_clamped_witness:
  "5 \<le> length (filter (\<lambda>r. NUMBER r = 13) five_laps) \<and>
   lap_times_rise 0.01 (filter (\<lambda>r. NUMBER r = 13) five_laps) \<and>
   (5::int) + 1 \<le> 27 - 2 \<and>
   (\<exists>d p. predict_pit_window five_laps 13 5 27 = Inr d \<and> pit_lap d = Some p \<and>
      5 + 1 \<le> p \<and> p \<le> 27 - 2)"
proof -
  have a: "5 \<le> length (filter (\<lambda>r. NUMBER r = 13) five_laps)"
    by (simp add: five_laps_def lap_entry_def)
  have b: "lap_times_rise 0.01 (filter (\<lambda>r. NUMBER r = 13) five_laps)"
    by (simp add: five_laps_def lap_entry_def lap_times_rise_def seconds_of_def)
  show ?thesis using a b predict_pit_window_clamped [OF a b, of 5 27] by simp
qed

text \<open>
  C10: past the data-sufficiency check, a fitted rate of at most 0.01 s per lap gives
  the pit lap \<open>total_laps - 1\<close> and the confidence 50.
\<close>

theorem predict_pit_window_stable:
  assumes "5 \<le> length (analyze_lap_degradation df v)"
      and "fit_recent (recent_window (analyze_lap_degradation df v) cur) = Inr (rate, c)"
      and "rate \<le> 0.01"
  shows "\<exists>d. predict_pit_window df v cur tot = Inr d \<and> pit_lap d = Some (tot - 1) \<and>
           confidence d = 50"
  using assms predict_stable [of v df cur rate c tot]
  by (simp add: length_analyze_lap_degradation)

theorem predict_pit_window_stable_witness:
  "5 \<le> length (analyze_lap_degradation steady_laps 7) \<and>
   fit_recent (recent_window (analyze_lap_degradation steady_laps 7) 5) = Inr (0, 0) \<and>
   (0::real) \<le> 0.01 \<and>
   (\<exists>d. predict_pit_window steady_laps 7 5 27 = Inr d \<and> pit_lap d = Some (27 - 1) \<and>
      confidence d = 50)"
proof -
  have a: "5 \<le> length (analyze_lap_degradation steady_laps 7)"
    by (simp add: length_analyze_lap_degradation steady_laps_def lap_entry_def)
  have b: "fit_recent (recent_window (analyze_lap_degradation steady_laps 7) 5) = Inr (0, 0)"
    by (simp add: steady_laps_def predict_eval)
  have c: "(0::real) \<le> 0.01" by simp
  show ?thesis using a b c predict_pit_window_stable [OF a b c, of 27] by simp
qed




section \<open>Theoretical best lap\<close>



lemma flt_irrefl: "\<not> flt a a"
  by (cases a) auto

lemma flt_step_lt: "flt y a \<Longrightarrow> \<not> flt y r \<Longrightarrow> \<not> flt a r"
  by (cases y; cases a; cases r) auto

lemma flt_step_ge:
  "\<not> flt y a \<Longrightarrow> \<not> flt a r \<Longrightarrow> y \<noteq> NaN \<Longrightarrow> a \<noteq> NaN \<Longrightarrow> r \<noteq> NaN \<Longrightarrow> \<not> flt y r"
  by (cases y; cases a; cases r) auto

lemma foldl_min_least:
  assumes "\<forall>y\<in>set ys. y \<noteq> NaN" "a \<noteq> NaN"
  shows "foldl (\<lambda>m x. if flt x m then x else m) a ys \<in> set (a # ys) \<and>
         foldl (\<lambda>m x. if flt x m then x else m) a ys \<noteq> NaN \<and>
         \<not> flt a (foldl (\<lambda>m x. if flt x m then x else m) a ys) \<and>
         (\<forall>y\<in>set ys. \<not> flt y (foldl (\<lambda>m x. if flt x m then x else m) a ys))"
  using assms
proof (induction ys arbitrary: a)
  case Nil
  then show ?case by (simp add: flt_irrefl)
next
  case (Cons y ys)
  define a' where "a' = (if flt y a then y else a)"
  define r where "r = foldl (\<lambda>m x. if flt x m then x else m) a' ys"
  have a': "a' \<noteq> NaN" using Cons.prems by (simp add: a'_def)
  have ys: "\<forall>z\<in>set ys. z \<noteq> NaN" and y: "y \<noteq> NaN" using Cons.prems by simp_all
  have ih: "r \<in> set (a' # ys) \<and> r \<noteq> NaN \<and> \<not> flt a' r \<and> (\<forall>z\<in>set ys. \<not> flt z r)"
    unfolding r_def using Cons.IH [OF ys a'] .
  have both: "\<not> flt a r \<and> \<not> flt y r"
  proof (cases "flt y a")
    case True
    then have "\<not> flt y r" using ih by (simp add: a'_def)
    then show ?thesis using True flt_step_lt by blast
  next
    case False
    then have "\<not> flt a r" using ih by (simp add: a'_def)
    then show ?thesis using False flt_step_ge y Cons.prems(2) ih by blast
  qed
  have mem: "r \<in> set (a # y # ys)" using ih by (auto simp: a'_def split: if_splits)
  have eq: "foldl (\<lambda>m x. if flt x m then x else m) a (y # ys) = r"
    by (simp add: r_def a'_def)
  show ?case unfolding eq using mem both ih by simp
qed

lemma col_min_is_col_min: "is_col_min xs (col_min xs)"
proof (cases "dropna xs")
  case Nil
  then show ?thesis by (simp add: is_col_min_def col_min_def)
next
  case (Cons a ys)
  have "\<forall>y\<in>set (dropna xs). y \<noteq> NaN" by (simp add: dropna_def isna_def)
  then have "\<forall>y\<in>set ys. y \<noteq> NaN" "a \<noteq> NaN" using Cons by auto
  from foldl_min_least [OF this] Cons show ?thesis
    by (simp add: is_col_min_def col_min_def list_all_iff)
qed



lemma col_min_fin_least:
  assumes "xs \<noteq> []" "\<forall>y\<in>set xs. is_fin y"
  shows "\<exists>m. col_min xs = Fin m \<and> Fin m \<in> set xs \<and> (\<forall>a. Fin a \<in> set xs \<longrightarrow> m \<le> a)"
proof -
  have d: "dropna xs = xs" using assms(2) by (simp add: dropna_fin is_fin_iff)
  have c: "col_min xs \<in> set xs \<and> (\<forall>y\<in>set xs. \<not> flt y (col_min xs))"
    using col_min_is_col_min [of xs] assms(1) d by (simp add: is_col_min_def list_all_iff)
  then obtain m where m: "col_min xs = Fin m" using assms(2) by (auto simp: is_fin_iff)
  have "\<forall>a. Fin a \<in> set xs \<longrightarrow> m \<le> a"
  proof (intro allI impI)
    fix a assume "Fin a \<in> set xs"
    then have "\<not> flt (Fin a) (Fin m)" using c m by auto
    then show "m \<le> a" by simp
  qed
  then show ?thesis using c m by auto
qed

lemma round_half_even_nonneg: "0 \<le> x \<Longrightarrow> 0 \<le> round_half_even x"
  by (simp add: round_half_even_def Let_def)

lemma py_round_nonneg: "0 \<le> x \<Longrightarrow> 0 \<le> py_round x n"
  by (simp add: py_round_def round_half_even_nonneg)

text \<open>
  C9: for a vehicle with at least one lap, \<open>theoretical_best\<close> is the rounded sum of
  the best values of the three sector columns, and \<open>improvement_potential\<close> the rounded
  difference of the best lap time and that sum; when the three sector times of every
  lap of the vehicle sum to its lap time, \<open>improvement_potential\<close> is not negative.
\<close>

theorem potential_lap_time_sum_of_minima:
  assumes "filter (\<lambda>r. NUMBER r = v) df \<noteq> []"
  shows "\<exists>p s1 s2 s3 a.
           calculate_potential_lap_time df v = Some p \<and>
           is_col_min (map S1_SECONDS (filter (\<lambda>r. NUMBER r = v) df)) s1 \<and>
           is_col_min (map S2_SECONDS (filter (\<lambda>r. NUMBER r = v) df)) s2 \<and>
           is_col_min (map S3_SECONDS (filter (\<lambda>r. NUMBER r = v) df)) s3 \<and>
           is_col_min (map lap_time_seconds (filter (\<lambda>r. NUMBER r = v) df)) a \<and>
           theoretical_best p = fround (fadd (fadd s1 s2) s3) 3 \<and>
           improvement_potential p = fround (fsub a (fadd (fadd s1 s2) s3)) 3 \<and>
           ((\<forall>r\<in>set df. NUMBER r = v \<longrightarrow> sectors_sum_to_lap r) \<longrightarrow>
            (\<exists>t i. theoretical_best p = Fin t \<and> improvement_potential p = Fin i \<and> 0 \<le> i))"
proof -
  let ?vl = "filter (\<lambda>r. NUMBER r = v) df"
  let ?s1 = "col_min (map S1_SECONDS ?vl)"
  let ?s2 = "col_min (map S2_SECONDS ?vl)"
  let ?s3 = "col_min (map S3_SECONDS ?vl)"
  let ?a = "col_min (map lap_time_seconds ?vl)"
  define p where "p = \<lparr>theoretical_best = fround (fadd (fadd ?s1 ?s2) ?s3) 3,
      actual_best = fround ?a 3,
      improvement_potential = fround (fsub ?a (fadd (fadd ?s1 ?s2) ?s3)) 3,
      best_s1 = fround ?s1 3, best_s2 = fround ?s2 3, best_s3 = fround ?s3 3\<rparr>"
  have res: "calculate_potential_lap_time df v = Some p"
    using assms by (simp add: calculate_potential_lap_time_def Let_def p_def)
  have exact: "\<exists>t i. theoretical_best p = Fin t \<and> improvement_potential p = Fin i \<and> 0 \<le> i"
    if h0: "\<forall>r\<in>set df. NUMBER r = v \<longrightarrow> sectors_sum_to_lap r"
  proof -
    have h: "\<forall>r\<in>set df. NUMBER r = v \<longrightarrow>
               (\<exists>x y z. S1_SECONDS r = Fin x \<and> S2_SECONDS r = Fin y \<and> S3_SECONDS r = Fin z \<and>
                  lap_time_seconds r = Fin (x + y + z))"
      using h0 by (auto simp: sectors_sum_to_lap_def is_fin_iff)
    have ne: "map S1_SECONDS ?vl \<noteq> []" "map S2_SECONDS ?vl \<noteq> []" "map S3_SECONDS ?vl \<noteq> []"
      "map lap_time_seconds ?vl \<noteq> []" using assms by simp_all
    have f1: "\<forall>y\<in>set (map S1_SECONDS ?vl). is_fin y" using h by fastforce
    have f2: "\<forall>y\<in>set (map S2_SECONDS ?vl). is_fin y" using h by fastforce
    have f3: "\<forall>y\<in>set (map S3_SECONDS ?vl). is_fin y" using h by fastforce
    have f4: "\<forall>y\<in>set (map lap_time_seconds ?vl). is_fin y" using h by fastforce
    obtain m1 where m1: "?s1 = Fin m1" "\<forall>a. Fin a \<in> set (map S1_SECONDS ?vl) \<longrightarrow> m1 \<le> a"
      using col_min_fin_least [OF ne(1) f1] by blast
    obtain m2 where m2: "?s2 = Fin m2" "\<forall>a. Fin a \<in> set (map S2_SECONDS ?vl) \<longrightarrow> m2 \<le> a"
      using col_min_fin_least [OF ne(2) f2] by blast
    obtain m3 where m3: "?s3 = Fin m3" "\<forall>a. Fin a \<in> set (map S3_SECONDS ?vl) \<longrightarrow> m3 \<le> a"
      using col_min_fin_least [OF ne(3) f3] by blast
    obtain m4 where m4: "?a = Fin m4" "Fin m4 \<in> set (map lap_time_seconds ?vl)"
      using col_min_fin_least [OF ne(4) f4] by blast
    from m4(2) obtain r where r: "r \<in> set ?vl" "lap_time_seconds r = Fin m4" by auto
    then obtain x y z where xyz: "S1_SECONDS r = Fin x" "S2_SECONDS r = Fin y"
      "S3_SECONDS r = Fin z" "lap_time_seconds r = Fin (x + y + z)"
      using h by fastforce
    have "m1 \<le> x" using m1(2) r(1) xyz(1) by (metis image_eqI list.set_map)
    moreover have "m2 \<le> y" using m2(2) r(1) xyz(2) by (metis image_eqI list.set_map)
    moreover have "m3 \<le> z" using m3(2) r(1) xyz(3) by (metis image_eqI list.set_map)
    moreover have "m4 = x + y + z" using r(2) xyz(4) by simp
    ultimately have "0 \<le> m4 - (m1 + m2 + m3)" by linarith
    then have "0 \<le> py_round (m4 - (m1 + m2 + m3)) 3" by (rule py_round_nonneg)
    then show ?thesis using m1(1) m2(1) m3(1) m4(1) by (simp add: p_def fsub_Fin)
  qed
  show ?thesis
    using res exact col_min_is_col_min [of "map S1_SECONDS ?vl"]
      col_min_is_col_min [of "map S2_SECONDS ?vl"] col_min_is_col_min [of "map S3_SECONDS ?vl"]
      col_min_is_col_min [of "map lap_time_seconds ?vl"]
    by (intro exI [of _ p] exI [of _ ?s1] exI [of _ ?s2] exI [of _ ?s3] exI [of _ ?a])
       (simp add: p_def)
qed

theorem potential_lap_time_sum_of_minima_witness:
  "filter (\<lambda>r. NUMBER r = 13) five_laps \<noteq> [] \<and>
   list_all sectors_sum_to_lap five_laps \<and>
   (\<exists>p. calculate_potential_lap_time five_laps 13 = Some p \<and>
      (\<exists>t i. theoretical_best p = Fin t \<and> improvement_potential p = Fin i \<and> 0 \<le> i))"
proof -
  have a: "filter (\<lambda>r. NUMBER r = 13) five_laps \<noteq> []"
    by (simp add: five_laps_def lap_entry_def)
  have b: "list_all sectors_sum_to_lap five_laps"
    by (simp add: five_laps_def lap_entry_def sectors_sum_to_lap_def)
  then have b': "\<forall>r\<in>set five_laps. NUMBER r = 13 \<longrightarrow> sectors_sum_to_lap r"
    by (simp add: list_all_iff)
  show ?thesis
    using a b b' potential_lap_time_sum_of_minima [OF a] by blast
qed

section \<open>Fuel strategy\<close>







section \<open>Optimal pit strategy\<close>

















text \<open>With at most three laps left the loop has no candidate.\<close>

lemma no_candidate_strategy:
  assumes "5 \<le> length (filter (\<lambda>r. NUMBER r = v) df)" and "tot \<le> cur + 3"
  shows "\<exists>s. calculate_optimal_pit_strategy df v cur tot rate0 = Reply s \<and>
           optimal_pit_lap s = cur + 1 \<and> \<not> should_pit s \<and> time_lost_with_pit s = PInf"
proof -
  have cs: "[cur + 1..tot - 2 - 1] = []" using assms(2) by simp
  have "\<not> flt (Fin 5) (fsub x PInf)" for x by (cases x) (simp_all add: fsub_def)
  then show ?thesis using assms(1) cs
    by (simp add: calculate_optimal_pit_strategy_def Let_def)
qed

end
